theory Spec2Isabelle
  imports Main "HOL-Library.Word"
begin

section \<open>EFI firmware volumes: \<open>pkg/efi/volume.go\<close>\<close>

text \<open>
  The volume parser \<open>ReadVolume\<close> and the serializer \<open>Volume.Serialize\<close> of
  \<open>pkg/efi/volume.go\<close>, embedded as HOL functions. Bytes are \<open>8 word\<close>, Go's
  \<open>uint16\<close>, \<open>uint32\<close> and \<open>uint64\<close> are words of that width (arithmetic
  wraps), and Go's \<open>int\<close> appears only as the length of byte slices, a \<open>nat\<close>.
\<close>

type_synonym byte = "8 word"

subsection \<open>Little-endian integers (\<open>encoding/binary\<close>, \<open>binary.LittleEndian\<close>)\<close>

text \<open>
  \<open>le_word\<close> reads an unsigned integer from its little-endian bytes and \<open>le_bytes\<close>
  writes the \<open>n\<close> low bytes of one, least significant byte first.
\<close>

definition le_word :: "byte list \<Rightarrow> 'a::len word" where
  "le_word bs = word_of_int (horner_sum uint (2 ^ 8) bs)"

definition le_bytes :: "nat \<Rightarrow> 'a::len word \<Rightarrow> byte list" where
  "le_bytes n w = map (\<lambda>i. ucast (drop_bit (8 * i) w)) [0..<n]"

subsection \<open>Failures\<close>

text \<open>
  Every way the two functions stop without a result. \<open>Error\<close> is an \<open>error\<close> value
  returned to the caller (each constructor is one \<open>fmt.Errorf\<close> of the source),
  \<open>Exit\<close> is \<open>glog.Exit\<close> (the error is logged and the process ends with
  \<open>os.Exit(1)\<close>: nothing is returned), and \<open>Panic\<close> is a Go panic.
\<close>

datatype io_error = EOF | ErrUnexpectedEOF

datatype check_error =
    UnknownGUID string
  | InvalidSignature
  | HeaderLengthTooSmall

datatype error =
    ReadingVolumeHeaderFailed io_error
  | VolumeHeaderInvalid check_error
  | BlockmapSizeNotMultipleOf8
  | BlockmapNoTerminator
  | UnsupportedBlockmapCount nat
  | ReadingFileFailed nat string
  | SerializeFileFailed nat string

datatype failure =
    Error error
  | Exit io_error
  | Panic string

text \<open>
  The error classes of the specification's taxonomy, and the class of each error the
  source returns.
\<close>

datatype error_class =
    UnsupportedFormat
  | MalformedHeader
  | MalformedBlockMap
  | MalformedFile
  | FileSerializeFailure

fun class_of :: "error \<Rightarrow> error_class" where
  "class_of (ReadingVolumeHeaderFailed _) = MalformedHeader"
| "class_of (VolumeHeaderInvalid (UnknownGUID _)) = UnsupportedFormat"
| "class_of (VolumeHeaderInvalid InvalidSignature) = UnsupportedFormat"
| "class_of (VolumeHeaderInvalid HeaderLengthTooSmall) = MalformedHeader"
| "class_of BlockmapSizeNotMultipleOf8 = MalformedBlockMap"
| "class_of BlockmapNoTerminator = MalformedBlockMap"
| "class_of (UnsupportedBlockmapCount _) = MalformedBlockMap"
| "class_of (ReadingFileFailed _ _) = MalformedFile"
| "class_of (SerializeFileFailed _ _) = FileSerializeFailure"

subsection \<open>Data\<close>

text \<open>
  \<open>FirmwareVolumeHeader\<close>. The fixed-size arrays \<open>[16]byte\<close> and \<open>[4]byte\<close> are
  byte lists; \<open>header_wf\<close> states the lengths that Go's array types fix.
\<close>

record FirmwareVolumeHeader =
  Reserved :: "byte list"
  GUID :: "byte list"
  Length :: "64 word"
  Signature :: "byte list"
  AttributeMask :: "32 word"
  HeaderLength :: "16 word"
  Checksum :: "16 word"
  ExtHeaderOffset :: "16 word"
  Reserved2 :: "byte"
  Revision :: "byte"

definition header_wf :: "FirmwareVolumeHeader \<Rightarrow> bool" where
  "header_wf h \<longleftrightarrow>
     length (Reserved h) = 16 \<and> length (GUID h) = 16 \<and> length (Signature h) = 4"

record blockmap =
  BlockCount :: "32 word"
  BlockSize :: "32 word"

text \<open>
  \<open>Volume\<close> embeds the header (the field \<open>Header\<close> is Go's embedded
  \<open>FirmwareVolumeHeader\<close>), the files and the trailing data. The type \<open>'f\<close> is
  \<open>FirmwareFile\<close>, which is declared in another file of the package.
\<close>

record 'f Volume =
  Header :: FirmwareVolumeHeader
  Files :: "'f list"
  Custom :: "byte list"

text \<open>
  What \<open>volume.go\<close> uses from the rest of package \<open>efi\<close>, taken as parameters:
  \<^item> \<open>GUID_String\<close>: \<open>GUID.String()\<close>, on the 16 bytes of the GUID;
  \<^item> \<open>readFile\<close>: \<open>readFile(r)\<close> on the bytes left in the bounded reader; it
    returns the file and the bytes left after it, or the error's text;
  \<^item> \<open>File_Serialize\<close>: \<open>FirmwareFile.Serialize()\<close>;
  \<^item> \<open>FileType\<close> and \<open>FileTypePadding\<close>: the field \<open>f.FileType\<close> and the constant it
    is compared with;
  \<^item> \<open>checksum16\<close>: the 16-bit checksum of a byte slice.
\<close>

record 'f efi =
  GUID_String :: "byte list \<Rightarrow> string"
  readFile :: "byte list \<Rightarrow> string + ('f \<times> byte list)"
  File_Serialize :: "'f \<Rightarrow> string + byte list"
  FileType :: "'f \<Rightarrow> byte"
  FileTypePadding :: "byte"
  checksum16 :: "byte list \<Rightarrow> 16 word"

subsection \<open>The bounded reader\<close>

text \<open>
  Modelled from the spec: \<open>NestedReader\<close> is declared in another file of the
  package. The specification describes it as a cursor over a fixed byte region that
  carves out length-limited sub-regions and advances a read position. The model is the
  list of bytes from the read position to the reader's bound: \<open>Sub 0 n\<close> is the view
  of the next \<open>n\<close> bytes, \<open>Advance n\<close> skips \<open>n\<close> bytes, \<open>Len\<close> counts what is
  left and \<open>ReadAll\<close> takes it all. A view or a skip longer than what is left stops
  at the bound.
\<close>

definition Sub :: "byte list \<Rightarrow> nat \<Rightarrow> nat \<Rightarrow> byte list" where
  "Sub r off n = take n (drop off r)"

definition Advance :: "byte list \<Rightarrow> nat \<Rightarrow> byte list" where
  "Advance r n = drop n r"

definition ReadAll :: "byte list \<Rightarrow> byte list" where
  "ReadAll r = r"

text \<open>
  \<open>binary.Read\<close> of a fixed-size value of \<open>n\<close> bytes is \<open>io.ReadFull\<close>: \<open>io.EOF\<close>
  when no byte is left, \<open>io.ErrUnexpectedEOF\<close> when fewer than \<open>n\<close> are, and
  otherwise the \<open>n\<close> bytes and the reader past them.
\<close>

definition ReadFull :: "byte list \<Rightarrow> nat \<Rightarrow> io_error + (byte list \<times> byte list)" where
  "ReadFull r n =
     (if n = 0 then Inr ([], r)
      else if r = [] then Inl EOF
      else if length r < n then Inl ErrUnexpectedEOF
      else Inr (take n r, drop n r))"

subsection \<open>The header on disk\<close>

definition decode_header :: "byte list \<Rightarrow> FirmwareVolumeHeader" where
  "decode_header bs =
     \<lparr> Reserved = take 16 bs,
       GUID = take 16 (drop 16 bs),
       Length = le_word (take 8 (drop 32 bs)),
       Signature = take 4 (drop 40 bs),
       AttributeMask = le_word (take 4 (drop 44 bs)),
       HeaderLength = le_word (take 2 (drop 48 bs)),
       Checksum = le_word (take 2 (drop 50 bs)),
       ExtHeaderOffset = le_word (take 2 (drop 52 bs)),
       Reserved2 = bs ! 54,
       Revision = bs ! 55 \<rparr>"

definition encode_header :: "FirmwareVolumeHeader \<Rightarrow> byte list" where
  "encode_header h =
     Reserved h @ GUID h @ le_bytes 8 (Length h) @ Signature h
     @ le_bytes 4 (AttributeMask h) @ le_bytes 2 (HeaderLength h)
     @ le_bytes 2 (Checksum h) @ le_bytes 2 (ExtHeaderOffset h)
     @ [Reserved2 h, Revision h]"

definition read_header :: "byte list \<Rightarrow> io_error + (FirmwareVolumeHeader \<times> byte list)" where
  "read_header r =
     (case ReadFull r 0x38 of
        Inl err \<Rightarrow> Inl err
      | Inr (bs, r') \<Rightarrow> Inr (decode_header bs, r'))"

definition decode_blockmap :: "byte list \<Rightarrow> blockmap" where
  "decode_blockmap bs =
     \<lparr> BlockCount = le_word (take 4 bs), BlockSize = le_word (take 4 (drop 4 bs)) \<rparr>"

definition encode_blockmap :: "blockmap \<Rightarrow> byte list" where
  "encode_blockmap e = le_bytes 4 (BlockCount e) @ le_bytes 4 (BlockSize e)"

subsection \<open>\<open>FirmwareVolumeHeader.check\<close>\<close>

definition FVH :: "byte list" where
  "FVH = [0x5F, 0x46, 0x56, 0x48]"

definition check :: "(byte list \<Rightarrow> string) \<Rightarrow> FirmwareVolumeHeader \<Rightarrow> check_error option" where
  "check guid_string h =
     (if guid_string (GUID h) \<noteq> ''7a9354d9-0468-444a-81ce-0bf617d890df''
        then Some (UnknownGUID (guid_string (GUID h)))
      else if Signature h \<noteq> FVH then Some InvalidSignature
      else if HeaderLength h < 0x38 + 8 then Some HeaderLengthTooSmall
      else None)"

subsection \<open>\<open>ReadVolume\<close>\<close>

text \<open>
  The loop that reads \<open>bmapCount\<close> block-map entries. A failed read ends the
  process (\<open>glog.Exit(err)\<close>).
\<close>

fun read_bmap :: "nat \<Rightarrow> byte list \<Rightarrow> blockmap list \<Rightarrow> failure + (blockmap list \<times> byte list)" where
  "read_bmap 0 r bmap = Inr (bmap, r)"
| "read_bmap (Suc k) r bmap =
     (case ReadFull r 8 of
        Inl err \<Rightarrow> Inl (Exit err)
      | Inr (bs, r') \<Rightarrow> read_bmap k r' (bmap @ [decode_blockmap bs]))"

text \<open>
  The loop \<open>for dataSub.Len() != 0\<close>. Nothing in \<open>volume.go\<close> makes \<open>readFile\<close>
  consume a byte, so the loop is a partial function: \<open>None\<close> is a loop that never
  ends.
\<close>

partial_function (option) read_files ::
  "(byte list \<Rightarrow> string + ('f \<times> byte list)) \<Rightarrow> byte list \<Rightarrow> 'f list \<Rightarrow> (failure + 'f list) option"
where
  "read_files rf dataSub files =
     (if length dataSub = 0 then Some (Inr files)
      else case rf dataSub of
             Inl err \<Rightarrow> Some (Inl (Error (ReadingFileFailed (length files) err)))
           | Inr (file, dataSub') \<Rightarrow> read_files rf dataSub' (files @ [file]))"

declare read_files.simps [code]

text \<open>
  The part of \<open>ReadVolume\<close> after the block map is accepted: the data size with the
  0x28 + 0x20 correction, in \<open>uint32\<close>; the bounded sub-reader; the trailing data; the
  files.
\<close>

definition data_size :: "blockmap list \<Rightarrow> 32 word" where
  "data_size bmap =
     (let dataSize = BlockCount (bmap ! 0) * BlockSize (bmap ! 0);
          dataSize = dataSize - (0x28 + 0x20)
      in dataSize)"

definition read_data :: "'f efi \<Rightarrow> FirmwareVolumeHeader \<Rightarrow> blockmap list \<Rightarrow> byte list
    \<Rightarrow> (failure + 'f Volume) option" where
  "read_data c header bmap r =
     (let dataSize = data_size bmap;
          dataSub = Sub r 0 (unat dataSize);
          r = Advance r (unat dataSize);
          rest = ReadAll r
      in case read_files (readFile c) dataSub [] of
           None \<Rightarrow> None
         | Some (Inl err) \<Rightarrow> Some (Inl err)
         | Some (Inr files) \<Rightarrow>
             Some (Inr \<lparr> Header = header, Files = files, Custom = rest \<rparr>))"

definition ReadVolume :: "'f efi \<Rightarrow> byte list \<Rightarrow> (failure + 'f Volume) option" where
  "ReadVolume c r =
     (case read_header r of
        Inl err \<Rightarrow> Some (Inl (Error (ReadingVolumeHeaderFailed err)))
      | Inr (header, r) \<Rightarrow>
     (case check (GUID_String c) header of
        Some err \<Rightarrow> Some (Inl (Error (VolumeHeaderInvalid err)))
      | None \<Rightarrow>
     (let blockmapSize = HeaderLength header - 0x38 in
      if blockmapSize mod 8 \<noteq> 0 then Some (Inl (Error BlockmapSizeNotMultipleOf8))
      else
     (let bmapCount = blockmapSize div 8 in
      case read_bmap (unat bmapCount) r [] of
        Inl stop \<Rightarrow> Some (Inl stop)
      | Inr (bmap, r) \<Rightarrow>
          if bmap = [] then Some (Inl (Panic ''index out of range''))
          else
            (let last = bmap ! (length bmap - 1) in
             if BlockCount last \<noteq> 0 \<or> BlockSize last \<noteq> 0
               then Some (Inl (Error BlockmapNoTerminator))
             else if length bmap \<noteq> 2
               then Some (Inl (Error (UnsupportedBlockmapCount (length bmap))))
             else read_data c header bmap r)))))"

subsection \<open>\<open>Volume.Serialize\<close>\<close>

text \<open>
  The first loop: is there a padding file, and which is the last one.
\<close>

fun find_padding :: "'f efi \<Rightarrow> 'f list \<Rightarrow> nat \<Rightarrow> bool \<times> nat \<Rightarrow> bool \<times> nat" where
  "find_padding c [] i st = st"
| "find_padding c (f # fs) i (havePadding, paddingFileNumber) =
     (if FileType c f \<noteq> FileTypePadding c
        then find_padding c fs (Suc i) (havePadding, paddingFileNumber)
      else find_padding c fs (Suc i) (True, i))"

text \<open>
  The second loop: every file is serialized and filled with \<open>0xff\<close> up to a
  multiple of 8 bytes; \<open>fileData\<close> maps the file's index to its bytes and
  \<open>filesSize\<close> adds up their lengths. An error of \<open>f.Serialize()\<close> is returned
  with the file's index.
\<close>

definition align8 :: "byte list \<Rightarrow> byte list" where
  "align8 data =
     (if length data mod 8 \<noteq> 0
        then (let pad = 8 - length data mod 8 in data @ replicate pad 0xff)
      else data)"

fun serialize_files :: "'f efi \<Rightarrow> 'f list \<Rightarrow> nat \<Rightarrow> nat \<times> (nat \<rightharpoonup> byte list)
    \<Rightarrow> error + (nat \<times> (nat \<rightharpoonup> byte list))" where
  "serialize_files c [] i st = Inr st"
| "serialize_files c (f # fs) i (filesSize, fileData) =
     (case File_Serialize c f of
        Inl err \<Rightarrow> Inl (SerializeFileFailed i err)
      | Inr data \<Rightarrow>
          (let data = align8 data
           in serialize_files c fs (Suc i) (filesSize + length data, fileData(i \<mapsto> data))))"

text \<open>
  The last loop writes each file's bytes from \<open>fileData\<close>; a file with no entry
  there is serialized again, and an error then is a panic.
\<close>

fun write_files :: "'f efi \<Rightarrow> 'f list \<Rightarrow> nat \<Rightarrow> (nat \<rightharpoonup> byte list) \<Rightarrow> byte list
    \<Rightarrow> failure + byte list" where
  "write_files c [] i fileData buf = Inr buf"
| "write_files c (f # fs) i fileData buf =
     (case fileData i of
        Some data \<Rightarrow> write_files c fs (Suc i) fileData (buf @ data)
      | None \<Rightarrow>
          (case File_Serialize c f of
             Inl err \<Rightarrow> Inl (Panic err)
           | Inr data \<Rightarrow> write_files c fs (Suc i) fileData (buf @ data)))"

definition make_bmap :: "nat \<Rightarrow> blockmap list" where
  "make_bmap filesSize =
     (let totalSize = filesSize + 0x38 + 0x10;
          nblocks = (word_of_nat (totalSize div 256) :: 32 word)
      in [\<lparr> BlockCount = nblocks, BlockSize = 256 \<rparr>, \<lparr> BlockCount = 0, BlockSize = 0 \<rparr>])"

definition padding_needed :: "nat \<Rightarrow> nat" where
  "padding_needed filesSize = (if filesSize mod 256 \<noteq> 0 then 256 - filesSize mod 256 else 0)"

text \<open>
  \<open>Serialize\<close> has a pointer receiver and assigns to \<open>v.Length\<close>,
  \<open>v.HeaderLength\<close>, \<open>v.ExtHeaderOffset\<close> and \<open>v.Checksum\<close>, so the model returns
  the volume as the call leaves it, beside what the call returns. Without a padding
  file the call panics (\<open>panic("unimplemented")\<close>) before anything is assigned.
\<close>

definition Serialize :: "'f efi \<Rightarrow> 'f Volume \<Rightarrow> 'f Volume \<times> (failure + byte list)" where
  "Serialize c v =
     (let (havePadding, paddingFileNumber) = find_padding c (Files v) 0 (False, 0) in
      if \<not> havePadding then (v, Inl (Panic ''unimplemented''))
      else
        case serialize_files c (Files v) 0 (0, Map.empty) of
          Inl err \<Rightarrow> (v, Inl (Error err))
        | Inr (filesSize, fileData) \<Rightarrow>
            (let bmap = make_bmap filesSize;
                 paddingNeeded = padding_needed filesSize;
                 v = v\<lparr>Header := (Header v)\<lparr>Length := 0\<rparr>\<rparr>;
                 v = v\<lparr>Header := (Header v)
                        \<lparr>Length := Length (Header v) + word_of_nat (filesSize + paddingNeeded)\<rparr>\<rparr>;
                 v = v\<lparr>Header := (Header v)\<lparr>HeaderLength := word_of_nat (0x38 + 8 * length bmap)\<rparr>\<rparr>;
                 v = v\<lparr>Header := (Header v)\<lparr>ExtHeaderOffset := 0\<rparr>\<rparr>;
                 v = v\<lparr>Header := (Header v)\<lparr>Checksum := 0\<rparr>\<rparr>;
                 checkBuf = encode_header (Header v) @ concat (map encode_blockmap bmap);
                 v = v\<lparr>Header := (Header v)\<lparr>Checksum := checksum16 c checkBuf\<rparr>\<rparr>;
                 buf = encode_header (Header v) @ concat (map encode_blockmap bmap)
             in case write_files c (Files v) 0 fileData buf of
                  Inl stop \<Rightarrow> (v, Inl stop)
                | Inr buf \<Rightarrow> (v, Inr (buf @ Custom v))))"

subsection \<open>An instance of the parameters\<close>

text \<open>
  A small file codec, used to run the two functions on concrete bytes. A file is its
  type byte and a body of fewer than 256 bytes; on disk it is the type, the body's
  length and the body, and \<open>sample_readFile\<close> skips the fill up to the next multiple
  of 8 bytes.
\<close>

type_synonym sample_file = "byte \<times> byte list"

definition sample_readFile :: "byte list \<Rightarrow> string + (sample_file \<times> byte list)" where
  "sample_readFile r =
     (case r of
        t # n # r' \<Rightarrow>
          (let k = unat n; fill = (8 - (2 + k) mod 8) mod 8
           in if length r' < k + fill then Inl ''short file''
              else Inr ((t, take k r'), drop (k + fill) r'))
      | _ \<Rightarrow> Inl ''short file header'')"

definition sample_File_Serialize :: "sample_file \<Rightarrow> string + byte list" where
  "sample_File_Serialize f =
     (if 256 \<le> length (snd f) then Inl ''file too large''
      else Inr (fst f # word_of_nat (length (snd f)) # snd f))"

text \<open>
  Modelled from the spec: \<open>GUID.String()\<close> is declared in another file; the text is
  the usual form of an EFI GUID, whose first three groups are little-endian.
\<close>

definition hex_digit :: "nat \<Rightarrow> char" where
  "hex_digit n = ''0123456789abcdef'' ! n"

definition hex_byte :: "byte \<Rightarrow> string" where
  "hex_byte b = [hex_digit (unat b div 16), hex_digit (unat b mod 16)]"

definition sample_GUID_String :: "byte list \<Rightarrow> string" where
  "sample_GUID_String g =
     concat (map (\<lambda>i. hex_byte (g ! i)) [3, 2, 1, 0]) @ ''-''
     @ concat (map (\<lambda>i. hex_byte (g ! i)) [5, 4]) @ ''-''
     @ concat (map (\<lambda>i. hex_byte (g ! i)) [7, 6]) @ ''-''
     @ concat (map (\<lambda>i. hex_byte (g ! i)) [8, 9]) @ ''-''
     @ concat (map (\<lambda>i. hex_byte (g ! i)) [10, 11, 12, 13, 14, 15])"

text \<open>
  Modelled from the spec: \<open>checksum16\<close> is declared in another file; the specification
  calls it a 16-bit sum/complement over the bytes. Here: the two's complement of the
  sum of the little-endian 16-bit words.
\<close>

fun sum16 :: "byte list \<Rightarrow> 16 word" where
  "sum16 (a # b # bs) = le_word [a, b] + sum16 bs"
| "sum16 [a] = le_word [a]"
| "sum16 [] = 0"

definition sample_checksum16 :: "byte list \<Rightarrow> 16 word" where
  "sample_checksum16 bs = - sum16 bs"

definition sample :: "sample_file efi" where
  "sample =
     \<lparr> GUID_String = sample_GUID_String,
       readFile = sample_readFile,
       File_Serialize = sample_File_Serialize,
       FileType = fst,
       FileTypePadding = 0xf0,
       checksum16 = sample_checksum16 \<rparr>"

definition sample_guid :: "byte list" where
  "sample_guid =
     [0xd9, 0x54, 0x93, 0x7a, 0x68, 0x04, 0x4a, 0x44,
      0x81, 0xce, 0x0b, 0xf6, 0x17, 0xd8, 0x90, 0xdf]"

text \<open>
  A header with the known GUID and signature, the given \<open>HeaderLength\<close> and zeros
  elsewhere, as bytes.
\<close>

definition sample_header :: "16 word \<Rightarrow> FirmwareVolumeHeader" where
  "sample_header hl =
     \<lparr> Reserved = replicate 16 0, GUID = sample_guid, Length = 0, Signature = FVH,
       AttributeMask = 0, HeaderLength = hl, Checksum = 0, ExtHeaderOffset = 0,
       Reserved2 = 0, Revision = 0 \<rparr>"

subsection \<open>Notions used in the statements\<close>

text \<open>
  The first \<open>n\<close> block-map entries as they lie in the bytes after the header.
\<close>

definition bmap_entries :: "nat \<Rightarrow> byte list \<Rightarrow> blockmap list" where
  "bmap_entries n r = map (\<lambda>i. decode_blockmap (take 8 (drop (8 * i) r))) [0..<n]"

text \<open>Some file of the list has the padding type.\<close>

definition has_padding :: "'f efi \<Rightarrow> 'f list \<Rightarrow> bool" where
  "has_padding c fs \<longleftrightarrow> (\<exists>f \<in> set fs. FileType c f = FileTypePadding c)"

text \<open>
  A file's bytes with \<open>0xff\<close> appended up to the next multiple of 8, in the
  specification's words.
\<close>

definition fill8 :: "byte list \<Rightarrow> byte list" where
  "fill8 data = data @ replicate ((8 - length data mod 8) mod 8) 0xff"

text \<open>The call gave an \<open>error\<close> value back to its caller.\<close>

fun returns_error :: "failure + 'a \<Rightarrow> bool" where
  "returns_error (Inl (Error _)) = True"
| "returns_error _ = False"

text \<open>
  A small image: the header, the block map \<open>[(1, 80), (0, 0)]\<close> (so 8 bytes of
  data), one padding file with a body of three bytes, and three trailing bytes.
\<close>

definition sample_image :: "byte list" where
  "sample_image =
     encode_header (sample_header 0x48)
     @ concat (map encode_blockmap
         [\<lparr> BlockCount = 1, BlockSize = 80 \<rparr>, \<lparr> BlockCount = 0, BlockSize = 0 \<rparr>])
     @ [0xf0, 3, 1, 2, 3, 0xff, 0xff, 0xff]
     @ [9, 9, 9]"

text \<open>
  Images that \<open>ReadVolume\<close> rejects: a signature with one byte changed, a
  \<open>HeaderLength\<close> of 0x30, a block map of three entries whose last one is not
  \<open>(0, 0)\<close>, and a block map cut off in its first entry.
\<close>

definition bad_signature_image :: "byte list" where
  "bad_signature_image =
     encode_header ((sample_header 0x48)\<lparr>Signature := [0x5F, 0x46, 0x56, 0x49]\<rparr>) @ [1, 2, 3]"

definition short_header_length_image :: "byte list" where
  "short_header_length_image = encode_header (sample_header 0x30) @ [1, 2, 3]"

definition three_entry_image :: "byte list" where
  "three_entry_image =
     encode_header (sample_header 0x50)
     @ concat (map encode_blockmap
         [\<lparr> BlockCount = 1, BlockSize = 80 \<rparr>, \<lparr> BlockCount = 0, BlockSize = 0 \<rparr>,
          \<lparr> BlockCount = 1, BlockSize = 1 \<rparr>])
     @ [0xf0, 3, 1, 2, 3, 0xff, 0xff, 0xff]"

definition truncated_blockmap_image :: "byte list" where
  "truncated_blockmap_image = encode_header (sample_header 0x48) @ [1, 0, 0, 0]"

text \<open>
  A header announcing three block-map entries (\<open>HeaderLength\<close> 0x50), followed by four
  bytes only.
\<close>

definition truncated_three_entry_image :: "byte list" where
  "truncated_three_entry_image = encode_header (sample_header 0x50) @ [1, 0, 0, 0]"

text \<open>The volume that \<open>sample_image\<close> holds.\<close>

definition sample_volume :: "sample_file Volume" where
  "sample_volume =
     \<lparr> Header = sample_header 0x48, Files = [(0xf0, [1, 2, 3])], Custom = [9, 9, 9] \<rparr>"

section \<open>Properties\<close>

subsection \<open>Little-endian integers and the header's layout\<close>

lemma length_le_bytes [simp]: "length (le_bytes n w) = n"
  by (simp add: le_bytes_def)

lemma bit_le_word:
  "bit (le_word bs :: 'a::len word) k \<longleftrightarrow>
     k < LENGTH('a) \<and> k div 8 < length bs \<and> bit (bs ! (k div 8)) (k mod 8)"
proof -
  have "bit (horner_sum uint (2 ^ LENGTH(8)) bs) k \<longleftrightarrow>
          k div LENGTH(8) < length bs \<and> bit (bs ! (k div LENGTH(8))) (k mod LENGTH(8))"
    by (rule bit_horner_sum_uint_exp_iff)
  then show ?thesis
    by (simp add: le_word_def bit_word_of_int_iff)
qed

lemma le_word_le_bytes:
  fixes w :: "'a::len word"
  assumes "LENGTH('a) \<le> 8 * n"
  shows "le_word (le_bytes n w) = w"
proof (rule bit_word_eqI)
  fix k assume k: "k < LENGTH('a)"
  with assms have kn: "k div 8 < n" by (simp add: less_mult_imp_div_less mult.commute)
  have "bit (le_word (le_bytes n w) :: 'a word) k \<longleftrightarrow> bit (le_bytes n w ! (k div 8)) (k mod 8)"
    using k kn by (simp add: bit_le_word)
  also have "\<dots> \<longleftrightarrow> bit w (8 * (k div 8) + k mod 8)"
    using kn by (simp add: le_bytes_def bit_ucast_iff bit_drop_bit_eq)
  finally show "bit (le_word (le_bytes n w) :: 'a word) k \<longleftrightarrow> bit w k"
    by simp
qed

lemma length_encode_header: "header_wf h \<Longrightarrow> length (encode_header h) = 56"
  by (simp add: header_wf_def encode_header_def)

lemma decode_encode_header:
  assumes "header_wf h"
  shows "decode_header (encode_header h @ rest) = h"
  using assms
  by (simp add: header_wf_def decode_header_def encode_header_def le_word_le_bytes nth_append)

lemma length_encode_blockmap [simp]: "length (encode_blockmap e) = 8"
  by (simp add: encode_blockmap_def)

lemma decode_encode_blockmap: "decode_blockmap (encode_blockmap e @ rest) = e"
  by (simp add: decode_blockmap_def encode_blockmap_def le_word_le_bytes)

lemma header_wf_decode: "56 \<le> length bs \<Longrightarrow> header_wf (decode_header bs)"
  by (simp add: header_wf_def decode_header_def)

lemma read_header_Inr:
  "read_header r = Inr (h, r') \<longleftrightarrow>
     56 \<le> length r \<and> h = decode_header (take 56 r) \<and> r' = drop 56 r"
  by (auto simp: read_header_def ReadFull_def split: if_splits)

lemma read_header_encode:
  "header_wf h \<Longrightarrow> read_header (encode_header h @ rest) = Inr (h, rest)"
  by (simp add: read_header_Inr length_encode_header
        decode_encode_header [where rest = "[]", simplified])

subsection \<open>The block-map loop\<close>

lemma read_bmap_length:
  "read_bmap k r acc = Inr (bmap, r') \<Longrightarrow> length bmap = length acc + k"
  by (induction k r acc rule: read_bmap.induct) (auto split: sum.splits)

lemma read_bmap_ok:
  "8 * k \<le> length r \<Longrightarrow>
   read_bmap k r acc = Inr (acc @ bmap_entries k r, drop (8 * k) r)"
proof (induction k r acc rule: read_bmap.induct)
  case (1 r bmap)
  then show ?case by (simp add: bmap_entries_def)
next
  case (2 k r bmap)
  have rf: "ReadFull r 8 = Inr (take 8 r, drop 8 r)"
    using 2(2) by (auto simp: ReadFull_def)
  have "8 * k \<le> length (drop 8 r)" using 2(2) by simp
  from 2(1) [OF rf refl this]
  have ih: "read_bmap k (drop 8 r) (bmap @ [decode_blockmap (take 8 r)]) =
      Inr ((bmap @ [decode_blockmap (take 8 r)]) @ bmap_entries k (drop 8 r),
           drop (8 * k) (drop 8 r))" .
  have "bmap_entries (Suc k) r = decode_blockmap (take 8 r) # bmap_entries k (drop 8 r)"
    unfolding bmap_entries_def map_upt_Suc by (simp add: add.commute)
  then show ?case using ih rf by (simp add: add.commute)
qed

lemma read_bmap_short:
  "length r < 8 * k \<Longrightarrow> \<exists>e. read_bmap k r acc = Inl (Exit e)"
proof (induction k r acc rule: read_bmap.induct)
  case (1 r bmap)
  then show ?case by simp
next
  case (2 k r bmap)
  show ?case
  proof (cases "ReadFull r 8")
    case (Inl e)
    then show ?thesis by simp
  next
    case (Inr p)
    then have "p = (take 8 r, drop 8 r)" and "8 \<le> length r"
      by (auto simp: ReadFull_def split: if_splits)
    with 2 Inr show ?thesis by simp
  qed
qed

subsection \<open>The header check and what follows it\<close>

lemma check_None:
  "check gs h = None \<longleftrightarrow>
     gs (GUID h) = ''7a9354d9-0468-444a-81ce-0bf617d890df'' \<and> Signature h = FVH
     \<and> 0x40 \<le> HeaderLength h"
  by (auto simp: check_def not_less)

lemma bmap_count_pos:
  fixes hl :: "16 word"
  assumes "0x40 \<le> hl"
  shows "1 \<le> unat ((hl - 0x38) div 8)"
  using assms by (simp add: unat_div unat_sub word_le_nat_alt)

lemma read_files_failure:
  "read_files rf d fs = Some (Inl x) \<Longrightarrow> \<exists>i e. x = Error (ReadingFileFailed i e)"
proof -
  have "\<forall>x. y = Inl x \<longrightarrow> (\<exists>i e. x = Error (ReadingFileFailed i e))"
    if "read_files rf d fs = Some y" for y
    by (rule read_files.raw_induct
          [where P = "\<lambda>_ _ _ y. \<forall>x. y = Inl x \<longrightarrow> (\<exists>i e. x = Error (ReadingFileFailed i e))",
           OF _ that])
       (auto split: if_splits sum.splits)
  then show "read_files rf d fs = Some (Inl x) \<Longrightarrow> \<exists>i e. x = Error (ReadingFileFailed i e)"
    by blast
qed

lemma read_data_no_panic: "read_data c h bmap r \<noteq> Some (Inl (Panic s))"
  by (auto simp: read_data_def Let_def split: option.splits sum.splits dest: read_files_failure)

lemma ReadVolume_checked:
  assumes "read_header r = Inr (h, r')" and "check (GUID_String c) h = None"
  shows "ReadVolume c r =
     (if (HeaderLength h - 0x38) mod 8 \<noteq> 0 then Some (Inl (Error BlockmapSizeNotMultipleOf8))
      else case read_bmap (unat ((HeaderLength h - 0x38) div 8)) r' [] of
        Inl stop \<Rightarrow> Some (Inl stop)
      | Inr (bmap, r'') \<Rightarrow>
          if bmap = [] then Some (Inl (Panic ''index out of range''))
          else if BlockCount (bmap ! (length bmap - 1)) \<noteq> 0
                  \<or> BlockSize (bmap ! (length bmap - 1)) \<noteq> 0
            then Some (Inl (Error BlockmapNoTerminator))
          else if length bmap \<noteq> 2
            then Some (Inl (Error (UnsupportedBlockmapCount (length bmap))))
          else read_data c h bmap r'')"
  using assms by (simp add: ReadVolume_def Let_def split: sum.splits prod.splits)

lemma read_header_take:
  "read_header r = Inr (h, r') \<Longrightarrow> read_header (take 56 r) = Inr (h, [])"
  by (auto simp: read_header_Inr)

lemma blockmap_zero_iff:
  "(BlockCount e \<noteq> 0 \<or> BlockSize e \<noteq> 0) \<longleftrightarrow> e \<noteq> \<lparr> BlockCount = 0, BlockSize = 0 \<rparr>"
  for e :: blockmap
  by (cases e) auto

lemma length_bmap_entries [simp]: "length (bmap_entries n r) = n"
  by (simp add: bmap_entries_def)

lemma ReadVolume_readable:
  assumes "read_header r = Inr (h, r')" and "check (GUID_String c) h = None"
    and "(HeaderLength h - 0x38) mod 8 = 0"
    and "8 * unat ((HeaderLength h - 0x38) div 8) \<le> length r'"
  shows "ReadVolume c r =
      (let n = unat ((HeaderLength h - 0x38) div 8); bmap = bmap_entries n r' in
       if bmap ! (n - 1) \<noteq> \<lparr> BlockCount = 0, BlockSize = 0 \<rparr>
         then Some (Inl (Error BlockmapNoTerminator))
       else if n \<noteq> 2 then Some (Inl (Error (UnsupportedBlockmapCount n)))
       else read_data c h bmap (drop 16 r'))"
proof -
  let ?n = "unat ((HeaderLength h - 0x38) div 8)"
  from assms(2) have "0x40 \<le> HeaderLength h" by (simp add: check_None)
  then have "1 \<le> ?n" by (rule bmap_count_pos)
  then have ne: "bmap_entries ?n r' \<noteq> []"
    by (metis length_bmap_entries list.size(3) not_one_le_zero)
  show ?thesis
    using assms(3,4) ne
    by (auto simp: ReadVolume_checked [OF assms(1,2)] read_bmap_ok blockmap_zero_iff Let_def)
qed

lemma ReadVolume_short:
  assumes "read_header r = Inr (h, r')" and "check (GUID_String c) h = None"
    and "(HeaderLength h - 0x38) mod 8 = 0"
    and "length r' < 8 * unat ((HeaderLength h - 0x38) div 8)"
  shows "\<exists>e. ReadVolume c r = Some (Inl (Exit e))"
proof -
  obtain e where "read_bmap (unat ((HeaderLength h - 0x38) div 8)) r' [] = Inl (Exit e)"
    using read_bmap_short [OF assms(4), of "[]"] by auto
  then show ?thesis using assms(3) by (simp add: ReadVolume_checked [OF assms(1,2)])
qed

lemma header_length_two_entries:
  fixes hl :: "16 word"
  assumes "0x40 \<le> hl" and "(hl - 0x38) mod 8 = 0" and "unat ((hl - 0x38) div 8) = 2"
  shows "hl = 0x48"
proof -
  have "unat (hl - 0x38) = unat hl - 0x38"
    using assms(1) by (simp add: unat_sub word_le_nat_alt)
  moreover have "unat ((hl - 0x38) mod 8) = 0" using assms(2) by simp
  then have "unat (hl - 0x38) mod 8 = 0" by (simp add: unat_mod)
  moreover have "unat (hl - 0x38) div 8 = 2" using assms(3) by (simp add: unat_div)
  ultimately have "unat hl = 0x48" using assms(1) by (simp add: word_le_nat_alt) arith
  then have "word_of_nat (unat hl) = (word_of_nat 0x48 :: 16 word)" by simp
  then show ?thesis by simp
qed

text \<open>What a successful parse says about its input.\<close>

lemma ReadVolume_Inr:
  assumes "ReadVolume c r = Some (Inr v)"
  shows "72 \<le> length r
     \<and> check (GUID_String c) (decode_header (take 56 r)) = None
     \<and> HeaderLength (decode_header (take 56 r)) = 0x48
     \<and> bmap_entries 2 (drop 56 r) ! 1 = \<lparr> BlockCount = 0, BlockSize = 0 \<rparr>
     \<and> read_data c (decode_header (take 56 r)) (bmap_entries 2 (drop 56 r)) (drop 72 r)
         = Some (Inr v)"
proof -
  let ?h = "decode_header (take 56 r)" and ?r' = "drop 56 r"
  let ?n = "unat ((HeaderLength ?h - 0x38) div 8)"
  have hdr: "read_header r = Inr (?h, ?r')"
    using assms by (auto simp: ReadVolume_def read_header_Inr split: sum.splits)
  have chk: "check (GUID_String c) ?h = None"
    using assms hdr by (auto simp: ReadVolume_def split: option.splits)
  have dv: "(HeaderLength ?h - 0x38) mod 8 = 0"
    using assms by (auto simp: ReadVolume_checked [OF hdr chk] split: if_splits)
  have rd: "8 * ?n \<le> length ?r'"
  proof (rule ccontr)
    assume "\<not> ?thesis"
    then have "length ?r' < 8 * ?n" by simp
    from ReadVolume_short [OF hdr chk dv this] assms show False by auto
  qed
  note eq = ReadVolume_readable [OF hdr chk dv rd]
  have n2: "?n = 2" using assms eq by (auto simp: Let_def split: if_splits)
  from chk have "0x40 \<le> HeaderLength ?h" by (simp add: check_None)
  then have hl: "HeaderLength ?h = 0x48" using dv n2 by (rule header_length_two_entries)
  have "72 \<le> length r" using rd n2 hdr by (simp add: read_header_Inr)
  moreover have "bmap_entries 2 ?r' ! 1 = \<lparr> BlockCount = 0, BlockSize = 0 \<rparr>"
    using assms eq n2 by (auto simp: Let_def split: if_splits)
  moreover have "read_data c ?h (bmap_entries 2 ?r') (drop 72 r) = Some (Inr v)"
    using assms eq n2 by (auto simp: Let_def split: if_splits)
  ultimately show ?thesis using chk hl by simp
qed

subsection \<open>The sample inputs\<close>

lemma sample_header_wf: "header_wf (sample_header hl)"
  by (simp add: header_wf_def sample_header_def sample_guid_def FVH_def)

lemma sample_GUID: "sample_GUID_String sample_guid = ''7a9354d9-0468-444a-81ce-0bf617d890df''"
  by (simp add: sample_GUID_String_def sample_guid_def hex_byte_def hex_digit_def)

lemma check_sample_header:
  "check (GUID_String sample) (sample_header hl) = (if hl < 0x40 then Some HeaderLengthTooSmall else None)"
  by (simp add: check_def sample_def sample_header_def sample_GUID)

lemma read_header_sample_image:
  "read_header sample_image = Inr (sample_header 0x48, drop 56 sample_image)"
  by (simp add: sample_image_def read_header_encode sample_header_wf length_encode_header)

lemma drop_sample_image:
  "drop 56 sample_image =
     encode_blockmap \<lparr> BlockCount = 1, BlockSize = 80 \<rparr>
     @ encode_blockmap \<lparr> BlockCount = 0, BlockSize = 0 \<rparr>
     @ [0xf0, 3, 1, 2, 3, 0xff, 0xff, 0xff, 9, 9, 9]"
  by (simp add: sample_image_def length_encode_header sample_header_wf)

lemma bmap_entries_encoded:
  "bmap_entries 2 (encode_blockmap a @ encode_blockmap b @ rest) = [a, b]"
proof -
  have "[0..<2] = [0, 1]" by (simp add: upt_rec)
  then show ?thesis
    by (simp add: bmap_entries_def decode_encode_blockmap [where rest = "[]", simplified])
qed

lemma ReadVolume_sample_image: "ReadVolume sample sample_image = Some (Inr sample_volume)"
  by code_simp

section \<open>The claims\<close>

text \<open>
  C10. Once the header check has passed, \<open>HeaderLength\<close> is at least 0x40, so the
  entry count \<open>(HeaderLength - 0x38) / 8\<close> is at least 1: every block map the loop
  returns is non-empty, and \<open>bmap[len(bmap)-1]\<close> never panics with an index out of
  range (\<open>ReadVolume\<close> never panics at all).
\<close>

theorem bmap_nonempty_after_check:
  assumes "read_header r = Inr (h, r')" and "check (GUID_String c) h = None"
  shows "1 \<le> unat ((HeaderLength h - 0x38) div 8)
     \<and> (\<forall>bmap r''. read_bmap (unat ((HeaderLength h - 0x38) div 8)) r' [] = Inr (bmap, r'')
           \<longrightarrow> bmap \<noteq> [])
     \<and> (\<forall>s. ReadVolume c r \<noteq> Some (Inl (Panic s)))"
proof -
  let ?n = "unat ((HeaderLength h - 0x38) div 8)"
  from assms(2) have "0x40 \<le> HeaderLength h" by (simp add: check_None)
  then have n: "1 \<le> ?n" by (rule bmap_count_pos)
  have ne: "bmap \<noteq> []" if "read_bmap ?n r' [] = Inr (bmap, r'')" for bmap r''
    using read_bmap_length [OF that] n by auto
  have exit: "stop \<noteq> Panic s" if "read_bmap ?n r' [] = Inl stop" for stop s
  proof (cases "8 * ?n \<le> length r'")
    case True
    then show ?thesis using that by (simp add: read_bmap_ok)
  next
    case False
    then obtain e where "read_bmap ?n r' [] = Inl (Exit e)"
      using read_bmap_short [of r' ?n "[]"] by auto
    with that show ?thesis by auto
  qed
  have "ReadVolume c r \<noteq> Some (Inl (Panic s))" for s
    unfolding ReadVolume_checked [OF assms]
    using ne exit by (auto split: sum.splits simp: read_data_no_panic)
  with n ne show ?thesis by blast
qed

theorem bmap_nonempty_after_check_witness:
  "read_header sample_image = Inr (sample_header 0x48, drop 56 sample_image)
   \<and> check (GUID_String sample) (sample_header 0x48) = None
   \<and> 1 \<le> unat ((HeaderLength (sample_header 0x48) - 0x38) div 8)
   \<and> (\<forall>s. ReadVolume sample sample_image \<noteq> Some (Inl (Panic s)))"
proof -
  have h1: "read_header sample_image = Inr (sample_header 0x48, drop 56 sample_image)"
    by (rule read_header_sample_image)
  have h2: "check (GUID_String sample) (sample_header 0x48) = None"
    by (simp add: check_sample_header)
  from bmap_nonempty_after_check [OF h1 h2] h1 h2 show ?thesis by blast
qed

text \<open>
  C4. When the header can be read: a GUID other than
  \<open>7a9354d9-0468-444a-81ce-0bf617d890df\<close> or a signature other than \<open>_FVH\<close> gives an
  error of class \<open>UnsupportedFormat\<close>; with both as expected, a \<open>HeaderLength\<close> below
  0x40 gives one of class \<open>MalformedHeader\<close> (\<open>check\<close> tests the three in this order).
  The error is returned before the block map is looked at: the result is the same on
  the 0x38 header bytes alone.
\<close>

theorem header_rejected_before_blockmap:
  assumes "read_header r = Inr (h, r')"
  shows "(GUID_String c (GUID h) \<noteq> ''7a9354d9-0468-444a-81ce-0bf617d890df'' \<or> Signature h \<noteq> FVH
            \<longrightarrow> (\<exists>e. ReadVolume c r = Some (Inl (Error (VolumeHeaderInvalid e)))
                     \<and> class_of (VolumeHeaderInvalid e) = UnsupportedFormat))
       \<and> (GUID_String c (GUID h) = ''7a9354d9-0468-444a-81ce-0bf617d890df'' \<and> Signature h = FVH
            \<and> HeaderLength h < 0x40
            \<longrightarrow> ReadVolume c r = Some (Inl (Error (VolumeHeaderInvalid HeaderLengthTooSmall)))
                 \<and> class_of (VolumeHeaderInvalid HeaderLengthTooSmall) = MalformedHeader)
       \<and> (check (GUID_String c) h \<noteq> None \<longrightarrow> ReadVolume c r = ReadVolume c (take 0x38 r))"
proof -
  have t: "read_header (take 0x38 r) = Inr (h, [])"
    using read_header_take [OF assms] by simp
  show ?thesis
    using assms t by (auto simp: ReadVolume_def check_def)
qed

theorem header_rejected_before_blockmap_witness:
  "(\<exists>e. ReadVolume sample bad_signature_image = Some (Inl (Error (VolumeHeaderInvalid e)))
        \<and> class_of (VolumeHeaderInvalid e) = UnsupportedFormat)
   \<and> ReadVolume sample bad_signature_image = ReadVolume sample (take 0x38 bad_signature_image)
   \<and> ReadVolume sample short_header_length_image
       = Some (Inl (Error (VolumeHeaderInvalid HeaderLengthTooSmall)))"
proof -
  let ?h1 = "(sample_header 0x48)\<lparr>Signature := [0x5F, 0x46, 0x56, 0x49]\<rparr>"
  have r1: "read_header bad_signature_image = Inr (?h1, [1, 2, 3])"
    unfolding bad_signature_image_def
    by (rule read_header_encode) (simp add: header_wf_def sample_header_def sample_guid_def)
  have s1: "Signature ?h1 \<noteq> FVH" by (simp add: FVH_def)
  have c1: "check (GUID_String sample) ?h1 \<noteq> None" by (simp add: check_def FVH_def)
  have r2: "read_header short_header_length_image = Inr (sample_header 0x30, [1, 2, 3])"
    unfolding short_header_length_image_def
    by (rule read_header_encode) (rule sample_header_wf)
  have g2: "GUID_String sample (GUID (sample_header 0x30)) = ''7a9354d9-0468-444a-81ce-0bf617d890df''"
    by (simp add: sample_def sample_header_def sample_GUID)
  have s2: "Signature (sample_header 0x30) = FVH" and l2: "HeaderLength (sample_header 0x30) < 0x40"
    by (simp_all add: sample_header_def)
  from header_rejected_before_blockmap [OF r1, of sample] s1 c1
       header_rejected_before_blockmap [OF r2, of sample] g2 s2 l2
  show ?thesis by blast
qed

text \<open>
  The block-map stage, after the header check, with \<open>n = (HeaderLength - 0x38) / 8\<close>: the parse returns an
  error when \<open>HeaderLength - 0x38\<close> is not a multiple of 8; when the \<open>n\<close> entries lie
  in the input, it returns an error if the last one is not \<open>(0, 0)\<close> or if \<open>n\<close> is not
  2, and otherwise goes on to the data region with the two entries it decoded; when
  they do not all lie in the input, the process ends. So a parse that returns a volume
  had all three conditions.
\<close>

lemma blockmap_stage:
  assumes "read_header r = Inr (h, r')" and "check (GUID_String c) h = None"
  shows "((HeaderLength h - 0x38) mod 8 \<noteq> 0
            \<longrightarrow> ReadVolume c r = Some (Inl (Error BlockmapSizeNotMultipleOf8)))
       \<and> ((HeaderLength h - 0x38) mod 8 = 0 \<and> 8 * unat ((HeaderLength h - 0x38) div 8) \<le> length r'
            \<longrightarrow> (let n = unat ((HeaderLength h - 0x38) div 8); bmap = bmap_entries n r' in
                  (bmap ! (n - 1) \<noteq> \<lparr> BlockCount = 0, BlockSize = 0 \<rparr>
                     \<longrightarrow> ReadVolume c r = Some (Inl (Error BlockmapNoTerminator)))
                \<and> (bmap ! (n - 1) = \<lparr> BlockCount = 0, BlockSize = 0 \<rparr> \<and> n \<noteq> 2
                     \<longrightarrow> ReadVolume c r = Some (Inl (Error (UnsupportedBlockmapCount n))))
                \<and> (bmap ! (n - 1) = \<lparr> BlockCount = 0, BlockSize = 0 \<rparr> \<and> n = 2
                     \<longrightarrow> ReadVolume c r = read_data c h bmap (drop 16 r'))))
       \<and> ((HeaderLength h - 0x38) mod 8 = 0 \<and> length r' < 8 * unat ((HeaderLength h - 0x38) div 8)
            \<longrightarrow> (\<exists>e. ReadVolume c r = Some (Inl (Exit e))))
       \<and> (\<forall>v. ReadVolume c r = Some (Inr v)
            \<longrightarrow> (HeaderLength h - 0x38) mod 8 = 0 \<and> unat ((HeaderLength h - 0x38) div 8) = 2
                 \<and> 16 \<le> length r' \<and> bmap_entries 2 r' ! 1 = \<lparr> BlockCount = 0, BlockSize = 0 \<rparr>)"
proof -
  have a: "ReadVolume c r = Some (Inl (Error BlockmapSizeNotMultipleOf8))"
    if "(HeaderLength h - 0x38) mod 8 \<noteq> 0"
    using that by (simp add: ReadVolume_checked [OF assms])
  let ?n = "unat ((HeaderLength h - 0x38) div 8)"
  let ?z = "\<lparr> BlockCount = 0, BlockSize = 0 \<rparr>"
  have b: "let n = unat ((HeaderLength h - 0x38) div 8); bmap = bmap_entries n r' in
             (bmap ! (n - 1) \<noteq> \<lparr> BlockCount = 0, BlockSize = 0 \<rparr>
                \<longrightarrow> ReadVolume c r = Some (Inl (Error BlockmapNoTerminator)))
           \<and> (bmap ! (n - 1) = \<lparr> BlockCount = 0, BlockSize = 0 \<rparr> \<and> n \<noteq> 2
                \<longrightarrow> ReadVolume c r = Some (Inl (Error (UnsupportedBlockmapCount n))))
           \<and> (bmap ! (n - 1) = \<lparr> BlockCount = 0, BlockSize = 0 \<rparr> \<and> n = 2
                \<longrightarrow> ReadVolume c r = read_data c h bmap (drop 16 r'))"
    if rd: "(HeaderLength h - 0x38) mod 8 = 0 \<and> 8 * unat ((HeaderLength h - 0x38) div 8) \<le> length r'"
  proof -
    from rd have eq: "ReadVolume c r =
       (if bmap_entries ?n r' ! (?n - 1) \<noteq> ?z then Some (Inl (Error BlockmapNoTerminator))
        else if ?n \<noteq> 2 then Some (Inl (Error (UnsupportedBlockmapCount ?n)))
        else read_data c h (bmap_entries ?n r') (drop 16 r'))"
      using ReadVolume_readable [OF assms] by (simp only: Let_def)
    have b1: "ReadVolume c r = Some (Inl (Error BlockmapNoTerminator))"
      if "bmap_entries ?n r' ! (?n - 1) \<noteq> ?z"
      by (subst eq) (use that in simp)
    have b2: "ReadVolume c r = Some (Inl (Error (UnsupportedBlockmapCount ?n)))"
      if "bmap_entries ?n r' ! (?n - 1) = ?z" and "?n \<noteq> 2"
      by (subst eq) (use that in simp)
    have b3: "ReadVolume c r = read_data c h (bmap_entries ?n r') (drop 16 r')"
      if "bmap_entries ?n r' ! (?n - 1) = ?z" and "?n = 2"
      by (subst eq) (use that in simp)
    from b1 b2 b3 show ?thesis unfolding Let_def by blast
  qed
  have s: "\<exists>e. ReadVolume c r = Some (Inl (Exit e))"
    if "(HeaderLength h - 0x38) mod 8 = 0 \<and> length r' < 8 * unat ((HeaderLength h - 0x38) div 8)"
    by (rule ReadVolume_short [OF assms]) (use that in simp_all)
  have ok: "(HeaderLength h - 0x38) mod 8 = 0 \<and> unat ((HeaderLength h - 0x38) div 8) = 2
      \<and> 16 \<le> length r' \<and> bmap_entries 2 r' ! 1 = \<lparr> BlockCount = 0, BlockSize = 0 \<rparr>"
    if "ReadVolume c r = Some (Inr v)" for v
  proof -
    from assms(1) have "h = decode_header (take 56 r)" and "r' = drop 56 r" and "56 \<le> length r"
      by (simp_all add: read_header_Inr)
    with ReadVolume_Inr [OF that] show ?thesis by auto
  qed
  from a b s ok show ?thesis by blast
qed

lemma blockmap_stage_sample:
  "ReadVolume sample sample_image =
     read_data sample (sample_header 0x48)
       [\<lparr> BlockCount = 1, BlockSize = 80 \<rparr>, \<lparr> BlockCount = 0, BlockSize = 0 \<rparr>]
       [0xf0, 3, 1, 2, 3, 0xff, 0xff, 0xff, 9, 9, 9]
   \<and> ReadVolume sample three_entry_image = Some (Inl (Error BlockmapNoTerminator))"
proof -
  have c1: "check (GUID_String sample) (sample_header 0x48) = None"
    and c3: "check (GUID_String sample) (sample_header 0x50) = None"
    by (simp_all add: check_sample_header)
  have n1: "unat ((HeaderLength (sample_header 0x48) - 0x38) div 8) = 2"
    and d1: "(HeaderLength (sample_header 0x48) - 0x38) mod 8 = 0"
    by (simp_all add: sample_header_def)
  from blockmap_stage [OF read_header_sample_image c1]
  have 1: "ReadVolume sample sample_image =
     read_data sample (sample_header 0x48)
       [\<lparr> BlockCount = 1, BlockSize = 80 \<rparr>, \<lparr> BlockCount = 0, BlockSize = 0 \<rparr>]
       [0xf0, 3, 1, 2, 3, 0xff, 0xff, 0xff, 9, 9, 9]"
    by (simp add: n1 d1 drop_sample_image bmap_entries_encoded)
  let ?r' = "encode_blockmap \<lparr> BlockCount = 1, BlockSize = 80 \<rparr>
            @ encode_blockmap \<lparr> BlockCount = 0, BlockSize = 0 \<rparr>
            @ encode_blockmap \<lparr> BlockCount = 1, BlockSize = 1 \<rparr>
            @ [0xf0, 3, 1, 2, 3, 0xff, 0xff, 0xff]"
  have r3: "read_header three_entry_image = Inr (sample_header 0x50, ?r')"
    unfolding three_entry_image_def
    using read_header_encode [where h = "sample_header 0x50" and rest = ?r', OF sample_header_wf]
    by simp
  have n3: "unat ((HeaderLength (sample_header 0x50) - 0x38) div 8) = 3"
    and d3: "(HeaderLength (sample_header 0x50) - 0x38) mod 8 = 0"
    by (simp_all add: sample_header_def)
  have e3: "bmap_entries 3 ?r' ! 2 = \<lparr> BlockCount = 1, BlockSize = 1 \<rparr>"
    by (simp add: bmap_entries_def decode_encode_blockmap
          decode_encode_blockmap [where rest = "[]", simplified])
  from blockmap_stage [OF r3 c3]
  have 3: "ReadVolume sample three_entry_image = Some (Inl (Error BlockmapNoTerminator))"
    by (simp add: n3 d3 e3)
  from 1 3 show ?thesis ..
qed

text \<open>
  C5. The claim: every input that passes the header check fails with an error unless
  \<open>HeaderLength - 0x38\<close> is a multiple of 8, the entry count is 2 and the last entry
  is \<open>(0, 0)\<close>. Here the count is 3 and the block map is cut off in its first entry:
  the read fails and the process ends in \<open>glog.Exit\<close> before the count or the last
  entry is tested. No error is returned.
\<close>

theorem truncated_three_entries_exit:
  "ReadVolume sample truncated_three_entry_image = Some (Inl (Exit ErrUnexpectedEOF))"
  by code_simp

theorem truncated_three_entries_exit_witness:
  "\<forall>e. ReadVolume sample truncated_three_entry_image \<noteq> Some (Inl (Error e))"
  using truncated_three_entries_exit by simp

text \<open>
  C6. The data size is \<open>bmap[0].BlockCount * bmap[0].BlockSize - 0x48\<close> in \<open>uint32\<close>;
  for \<open>[(100, 256), (0, 0)]\<close> it is 25528. It is the length \<open>ReadVolume\<close> uses:
  in a parsed volume the files were read from that many bytes after the block map,
  and \<open>Custom\<close> is what follows them.
\<close>

theorem data_region_length:
  "(\<forall>e0 e1. data_size [e0, e1] = BlockCount e0 * BlockSize e0 - 0x48)
   \<and> unat (data_size [\<lparr> BlockCount = 100, BlockSize = 256 \<rparr>,
                       \<lparr> BlockCount = 0, BlockSize = 0 \<rparr>]) = 25528
   \<and> (\<forall>v. ReadVolume c r = Some (Inr v) \<longrightarrow>
         (let d = unat (data_size (bmap_entries 2 (drop 0x38 r))) in
            Custom v = drop (0x48 + d) r
          \<and> read_files (readFile c) (take d (drop 0x48 r)) [] = Some (Inr (Files v))))"
proof -
  have 1: "data_size [e0, e1] = BlockCount e0 * BlockSize e0 - 0x48" for e0 e1
    by (simp add: data_size_def)
  have 2: "unat (data_size [\<lparr> BlockCount = 100, BlockSize = 256 \<rparr>,
                           \<lparr> BlockCount = 0, BlockSize = 0 \<rparr>]) = 25528"
    by (simp add: data_size_def)
  have 3: "Custom v = drop (0x48 + unat (data_size (bmap_entries 2 (drop 0x38 r)))) r
        \<and> read_files (readFile c)
             (take (unat (data_size (bmap_entries 2 (drop 0x38 r)))) (drop 0x48 r)) []
            = Some (Inr (Files v))"
    if "ReadVolume c r = Some (Inr v)" for v
  proof -
    from ReadVolume_Inr [OF that]
    have "read_data c (decode_header (take 56 r)) (bmap_entries 2 (drop 56 r)) (drop 72 r)
            = Some (Inr v)"
      by simp
    then show ?thesis
      by (auto simp: read_data_def Let_def Sub_def Advance_def ReadAll_def add.commute
               split: option.splits sum.splits)
  qed
  show ?thesis using 1 2 3 by (simp add: Let_def)
qed

theorem data_region_length_witness:
  "ReadVolume sample sample_image = Some (Inr sample_volume)
   \<and> unat (data_size (bmap_entries 2 (drop 0x38 sample_image))) = 8
   \<and> Custom sample_volume = drop (0x48 + 8) sample_image
   \<and> read_files (readFile sample) (take 8 (drop 0x48 sample_image)) []
       = Some (Inr (Files sample_volume))"
proof -
  have d: "unat (data_size (bmap_entries 2 (drop 0x38 sample_image))) = 8"
    by (simp add: drop_sample_image bmap_entries_encoded data_size_def)
  from data_region_length [of sample sample_image] ReadVolume_sample_image d show ?thesis
    by (simp add: Let_def)
qed

text \<open>
  C3. A block map that ends inside its first entry: the header passes the check, the
  read of the entry fails, and the process ends in \<open>glog.Exit\<close>. No error is returned
  to the caller.
\<close>

theorem short_blockmap_exits:
  "ReadVolume sample truncated_blockmap_image = Some (Inl (Exit ErrUnexpectedEOF))"
  by code_simp

theorem short_blockmap_exits_witness:
  "\<forall>e. ReadVolume sample truncated_blockmap_image \<noteq> Some (Inl (Error e))"
  using short_blockmap_exits by simp

end
